theory Spec2Isabelle
  imports Main
begin

section \<open>WebSerialCommunicator: a serial-port adapter over the Web Serial API\<close>

text \<open>
  The class \<^verbatim>\<open>WebSerialCommunicator\<close> (src/Communicators/WebSerialCommunicator.ts) is
  glue over objects of the host platform: a \<^verbatim>\<open>SerialPort\<close>, a pair of text codec streams
  with their reader and writer, and an interval timer. The embedding keeps the class as it
  is written and takes the platform as a parameter:
  \<^item> the fields of the class are a record, together with the state of the platform (the
    port, the streams, the timers) and the trace of the calls the adapter has made into
    the platform, oldest first;
  \<^item> every method is a function from the state to an outcome (\<open>None\<close>: the promise
    resolves, \<open>Some e\<close>: it rejects with \<open>e\<close>) and the state it leaves; fields
    assigned and calls made before a rejection stay in that state, as in JavaScript;
  \<^item> every call into the platform is a field of the record \<open>platform\<close>: what the call does
    to the platform and whether it fails is not decided by the adapter;
  \<^item> a method runs to its end before another one starts: the steps other tasks take at
    an \<^verbatim>\<open>await\<close> are not modelled.
\<close>

subsection \<open>JavaScript values, objects and errors\<close>

datatype js_value = Undefined | Num int | Str string

text \<open>
  An object is the list of its own enumerable properties in creation order.
  \<open>set_prop\<close> is the assignment \<^verbatim>\<open>o[k] = v\<close>: an existing key keeps its place, a new
  key goes last. \<open>get_prop\<close> reads a property; \<open>None\<close> is an absent key.
\<close>

type_synonym js_object = "(string \<times> js_value) list"

fun set_prop :: "string \<Rightarrow> js_value \<Rightarrow> js_object \<Rightarrow> js_object" where
  "set_prop k v [] = [(k, v)]"
| "set_prop k v ((k', v') # ps) =
     (if k = k' then (k, v) # ps else (k', v') # set_prop k v ps)"

definition get_prop :: "js_object \<Rightarrow> string \<Rightarrow> js_value option" where
  "get_prop ob k = map_of ob k"

text \<open>
  \<^verbatim>\<open>Object.assign(target, source)\<close>: every own enumerable property of the source, in
  order, is assigned on the target; the target is returned.
\<close>

definition Object_assign :: "js_object \<Rightarrow> js_object \<Rightarrow> js_object" where
  "Object_assign target source = fold (\<lambda>(k, v). set_prop k v) source target"

text \<open>
  The values a method throws or a promise rejects with. \<open>Error\<close> is the \<^verbatim>\<open>new Error(msg)\<close>
  of the source; \<open>TypeError\<close> and \<open>ReferenceError\<close> are raised by the language itself;
  \<open>DOMException\<close> stands for whatever the platform rejects with.
\<close>

datatype js_error =
    Error string
  | TypeError string
  | ReferenceError string
  | DOMException string

subsection \<open>The platform\<close>

text \<open>
  The two promises \<^verbatim>\<open>pipeTo\<close> returns, by the pipe they belong to; timers and registered
  functions by identity.
\<close>

datatype pipe = EncoderToPort | PortToDecoder

type_synonym timer = nat

type_synonym callback = nat

text \<open>What \<^verbatim>\<open>reader.read()\<close> resolves with: \<^verbatim>\<open>{ value, done }\<close>, the value possibly undefined.\<close>

datatype read_result = ReadResult (rvalue: "string option") (rdone: bool)

text \<open>The calls the adapter makes into the platform, as the trace records them.\<close>

datatype call =
    SerialPort_open js_object
  | PipeTo pipe
  | SetInterval nat
  | ClearInterval timer
  | Reader_read
  | Invoke callback string
  | Reader_releaseLock
  | Reader_cancel
  | Await pipe
  | Writer_close
  | SerialPort_close
  | SerialPort_forget
  | Writer_write string

text \<open>
  The function handed to \<^verbatim>\<open>setInterval\<close>: the only one is the closure \<^verbatim>\<open>readData\<close> that
  \<^verbatim>\<open>connect\<close> creates.
\<close>

datatype handler = ReadData

text \<open>
  The global \<^verbatim>\<open>SerialPort\<close> as \<^verbatim>\<open>revokeConnection\<close> finds it: not declared at all
  (reading the identifier is then a ReferenceError), or a class, whose prototype has the
  property \<^verbatim>\<open>forget\<close> or not.
\<close>

datatype global_class = SerialPort_undeclared | SerialPort_prototype bool

text \<open>
  The platform, over its own state \<open>'p\<close>. The getters read that state; a call that is
  awaited returns its outcome and the new state; \<^verbatim>\<open>pipeTo\<close>, \<^verbatim>\<open>setInterval\<close>,
  \<^verbatim>\<open>clearInterval\<close> and the \<^verbatim>\<open>forget()\<close> that is not awaited return at once.
  \<open>interval_handler\<close> is the function an active timer runs at each of its ticks (\<open>None\<close>
  for a timer that is not active). \<open>serialPort_global\<close> is the global class the adapter
  tests, and \<open>port_has_forget\<close> says whether the port the adapter holds has a method
  \<^verbatim>\<open>forget\<close>: the port is any object of the interface, not always an instance of that
  class. \<open>invoke\<close> runs a registered function, which is the caller's code: it may throw,
  and it is taken to act on the platform only, not to call back into the adapter.
\<close>

record 'p platform =
  port_readable :: "'p \<Rightarrow> bool"
  port_writable :: "'p \<Rightarrow> bool"
  usbProductId :: "'p \<Rightarrow> nat option"
  serialPort_global :: global_class
  port_has_forget :: "'p \<Rightarrow> bool"
  port_open :: "js_object \<Rightarrow> 'p \<Rightarrow> js_error option \<times> 'p"
  pipeTo :: "pipe \<Rightarrow> 'p \<Rightarrow> 'p"
  setInterval :: "handler \<Rightarrow> nat \<Rightarrow> 'p \<Rightarrow> timer \<times> 'p"
  interval_handler :: "'p \<Rightarrow> timer \<Rightarrow> handler option"
  clearInterval :: "timer \<Rightarrow> 'p \<Rightarrow> 'p"
  reader_read :: "'p \<Rightarrow> (js_error + read_result) \<times> 'p"
  invoke :: "callback \<Rightarrow> string \<Rightarrow> 'p \<Rightarrow> js_error option \<times> 'p"
  reader_releaseLock :: "'p \<Rightarrow> js_error option \<times> 'p"
  reader_cancel :: "'p \<Rightarrow> js_error option \<times> 'p"
  await_pipe :: "pipe \<Rightarrow> 'p \<Rightarrow> js_error option \<times> 'p"
  writer_close :: "'p \<Rightarrow> js_error option \<times> 'p"
  port_close :: "'p \<Rightarrow> js_error option \<times> 'p"
  port_forget :: "'p \<Rightarrow> 'p"
  writer_write :: "string \<Rightarrow> 'p \<Rightarrow> js_error option \<times> 'p"

subsection \<open>The adapter's state and the sequencing of its steps\<close>

text \<open>
  The mutable fields of the class, with the platform's state (\<open>world\<close>) and the trace.
  \<^verbatim>\<open>null\<close> is \<open>None\<close>. The port, the codec streams, the reader and the writer are created
  once and never reassigned: they live in \<open>world\<close>.
\<close>

record 'p state =
  serialPortOptions :: js_object
  writableStreamClosed :: "pipe option"
  readableStreamClosed :: "pipe option"
  readInterval :: "timer option"
  onResiveFunc :: "callback option"
  world :: 'p
  trace :: "call list"

type_synonym 'p step = "'p state \<Rightarrow> js_error option \<times> 'p state"

text \<open>An awaited call into the platform: it is recorded, and its outcome is the step's.\<close>

definition perform :: "call \<Rightarrow> ('p \<Rightarrow> js_error option \<times> 'p) \<Rightarrow> 'p step" where
  "perform c f s =
     (case f (world s) of (r, p) \<Rightarrow> (r, s\<lparr>world := p, trace := trace s @ [c]\<rparr>))"

text \<open>Statements in sequence: the first one that throws ends the sequence.\<close>

fun run :: "'p step list \<Rightarrow> 'p step" where
  "run [] s = (None, s)"
| "run (f # fs) s =
     (case f s of (None, s') \<Rightarrow> run fs s' | (Some e, s') \<Rightarrow> (Some e, s'))"

text \<open>\<^verbatim>\<open>try { body } catch (error) { }\<close>: whatever the body throws is dropped.\<close>

definition try_catch_ignore :: "'p step \<Rightarrow> 'p step" where
  "try_catch_ignore body s = (case body s of (r, s') \<Rightarrow> (None, s'))"

subsection \<open>The constructor and the getters\<close>

definition default_options :: js_object where
  "default_options =
     [(''baudRate'', Num 9600), (''dataBits'', Num 8), (''stopBits'', Num 1),
      (''parity'', Str ''none'')]"

text \<open>
  \<^verbatim>\<open>constructor(port, options = {})\<close>: an omitted argument (\<open>None\<close>) is the empty object.
  The port handed over, with the fresh codec streams, is the initial \<open>world\<close>.
\<close>

definition constructor :: "'p \<Rightarrow> js_object option \<Rightarrow> 'p state" where
  "constructor port options =
     \<lparr> serialPortOptions =
         Object_assign default_options (case options of None \<Rightarrow> [] | Some ob \<Rightarrow> ob),
       writableStreamClosed = None,
       readableStreamClosed = None,
       readInterval = None,
       onResiveFunc = None,
       world = port,
       trace = [] \<rparr>"

text \<open>
  \<^verbatim>\<open>Number.prototype.toString(16)\<close> on a non-negative integer (a USB product id is an
  unsigned short): lower-case digits, most significant first, no padding.
\<close>

definition hex_digit :: "nat \<Rightarrow> char" where
  "hex_digit d = ''0123456789abcdef'' ! d"

fun toString16 :: "nat \<Rightarrow> string" where
  "toString16 n =
     (if n < 16 then [hex_digit n] else toString16 (n div 16) @ [hex_digit (n mod 16)])"

declare toString16.simps [simp del]

text \<open>
  \<^verbatim>\<open>`webserial-${this.serialPort.getInfo().usbProductId?.toString(16) || 'unknown'}`\<close>:
  \<^verbatim>\<open>?.\<close> gives undefined for a missing id, and \<^verbatim>\<open>||\<close> replaces undefined and the empty
  string by \<^verbatim>\<open>'unknown'\<close>.
\<close>

definition deviceIndentifier :: "'p platform \<Rightarrow> 'p state \<Rightarrow> string" where
  "deviceIndentifier plat s =
     ''webserial-'' @
       (case usbProductId plat (world s) of
          None \<Rightarrow> ''unknown''
        | Some n \<Rightarrow> (if toString16 n = [] then ''unknown'' else toString16 n))"

definition isConnected :: "'p platform \<Rightarrow> 'p state \<Rightarrow> bool" where
  "isConnected plat s \<longleftrightarrow> port_readable plat (world s) \<and> port_writable plat (world s)"

subsection \<open>connect and the read loop\<close>

text \<open>\<^verbatim>\<open>value || ''\<close>: undefined and the empty string both give the empty string.\<close>

definition or_empty :: "string option \<Rightarrow> string" where
  "or_empty v = (case v of None \<Rightarrow> [] | Some x \<Rightarrow> (if x = [] then [] else x))"

definition call_onResiveFunc :: "'p platform \<Rightarrow> string option \<Rightarrow> 'p step" where
  "call_onResiveFunc plat v s =
     (case onResiveFunc s of
        None \<Rightarrow> (None, s)
      | Some f \<Rightarrow> perform (Invoke f (or_empty v)) (invoke plat f (or_empty v)) s)"

definition release_if_done :: "'p platform \<Rightarrow> bool \<Rightarrow> 'p step" where
  "release_if_done plat d s =
     (if d then perform Reader_releaseLock (reader_releaseLock plat) s else (None, s))"

text \<open>
  The body of the \<^verbatim>\<open>try\<close> block of \<^verbatim>\<open>readData\<close>: the awaited read, which throws when the
  read rejects, then the callback, then the release of the lock at the end of the stream.
\<close>

definition readData_body :: "'p platform \<Rightarrow> 'p step" where
  "readData_body plat s =
     (case reader_read plat (world s) of
        (r, p) \<Rightarrow>
          (let s1 = s\<lparr>world := p, trace := trace s @ [Reader_read]\<rparr> in
           case r of
             Inl e \<Rightarrow> (Some e, s1)
           | Inr res \<Rightarrow>
               run [call_onResiveFunc plat (rvalue res), release_if_done plat (rdone res)] s1))"

definition readData :: "'p platform \<Rightarrow> 'p step" where
  "readData plat = try_catch_ignore (readData_body plat)"

text \<open>
  Line 57: \<^verbatim>\<open>pipeTo\<close> returns its promise at once, also when its argument is null (the
  promise is then a rejected one). Line 58 reads \<^verbatim>\<open>pipeTo\<close> from
  \<^verbatim>\<open>this.serialPort.readable\<close>: on null that is a TypeError, and no call is made.
\<close>

definition pipe_writable :: "'p platform \<Rightarrow> 'p step" where
  "pipe_writable plat s =
     (None, s\<lparr>writableStreamClosed := Some EncoderToPort,
              world := pipeTo plat EncoderToPort (world s),
              trace := trace s @ [PipeTo EncoderToPort]\<rparr>)"

definition pipe_readable :: "'p platform \<Rightarrow> 'p step" where
  "pipe_readable plat s =
     (if port_readable plat (world s)
      then (None, s\<lparr>readableStreamClosed := Some PortToDecoder,
                    world := pipeTo plat PortToDecoder (world s),
                    trace := trace s @ [PipeTo PortToDecoder]\<rparr>)
      else (Some (TypeError ''Cannot read properties of null (reading 'pipeTo')''), s))"

text \<open>
  \<^verbatim>\<open>this.readInterval = setInterval(readData, 10)\<close>: the closure is handed to the
  platform, which returns the timer.
\<close>

definition start_read_loop :: "'p platform \<Rightarrow> 'p step" where
  "start_read_loop plat s =
     (case setInterval plat ReadData 10 (world s) of
        (t, p) \<Rightarrow> (None, s\<lparr>readInterval := Some t, world := p,
                           trace := trace s @ [SetInterval 10]\<rparr>))"

definition connect :: "'p platform \<Rightarrow> 'p step" where
  "connect plat s =
     (if isConnected plat s then (None, s)
      else run
        [perform (SerialPort_open (serialPortOptions s)) (port_open plat (serialPortOptions s)),
         pipe_writable plat,
         pipe_readable plat,
         start_read_loop plat] s)"





subsection \<open>disconnect, revokeConnection, write, setOnResiveFunc\<close>

definition clear_read_interval :: "'p platform \<Rightarrow> 'p step" where
  "clear_read_interval plat s =
     (case readInterval s of
        None \<Rightarrow> (None, s)
      | Some t \<Rightarrow> (None, s\<lparr>readInterval := None,
                           world := clearInterval plat t (world s),
                           trace := trace s @ [ClearInterval t]\<rparr>))"

text \<open>\<^verbatim>\<open>await promise\<close> on a field that may hold null: awaiting null continues at once.\<close>

definition await_field :: "'p platform \<Rightarrow> pipe option \<Rightarrow> 'p step" where
  "await_field plat pr s =
     (case pr of None \<Rightarrow> (None, s) | Some q \<Rightarrow> perform (Await q) (await_pipe plat q) s)"

definition disconnect :: "'p platform \<Rightarrow> 'p step" where
  "disconnect plat s =
     (if \<not> isConnected plat s then (None, s)
      else run
        [clear_read_interval plat,
         perform Reader_cancel (reader_cancel plat),
         (\<lambda>s. await_field plat (readableStreamClosed s) s),
         (\<lambda>s. (None, s\<lparr>readableStreamClosed := None\<rparr>)),
         perform Writer_close (writer_close plat),
         (\<lambda>s. await_field plat (writableStreamClosed s) s),
         (\<lambda>s. (None, s\<lparr>writableStreamClosed := None\<rparr>)),
         perform SerialPort_close (port_close plat)] s)"

definition unsupported :: js_error where
  "unsupported =
     Error ''Cannot revoke access of this port serial. This function is not supported.''"

text \<open>
  Line 101 reads the global \<^verbatim>\<open>SerialPort\<close>, which throws where it is not declared. Line
  105 calls \<^verbatim>\<open>forget\<close> on the port the adapter holds: on a port without that method the
  call is a TypeError; otherwise it returns a promise that is not awaited.
\<close>

definition revokeConnection :: "'p platform \<Rightarrow> 'p step" where
  "revokeConnection plat s =
     (case serialPort_global plat of
        SerialPort_undeclared \<Rightarrow> (Some (ReferenceError ''SerialPort is not defined''), s)
      | SerialPort_prototype forget_in_prototype \<Rightarrow>
          (if \<not> forget_in_prototype then (Some unsupported, s)
           else if \<not> port_has_forget plat (world s)
           then (Some (TypeError ''this.serialPort.forget is not a function''), s)
           else (None, s\<lparr>world := port_forget plat (world s),
                         trace := trace s @ [SerialPort_forget]\<rparr>)))"

text \<open>The method \<^verbatim>\<open>write\<close>, under a name that is free in Isabelle.\<close>

definition write_data :: "'p platform \<Rightarrow> string \<Rightarrow> 'p step" where
  "write_data plat data = perform (Writer_write data) (writer_write plat data)"

definition setOnResiveFunc :: "callback \<Rightarrow> 'p step" where
  "setOnResiveFunc func s = (None, s\<lparr>onResiveFunc := Some func\<rparr>)"

subsection \<open>listDevices\<close>

text \<open>
  The global \<^verbatim>\<open>navigator\<close> as \<^verbatim>\<open>listDevices\<close> finds it: not declared at all (reading the
  identifier is then a ReferenceError), declared with a falsy value, or an object, with
  or without the property \<^verbatim>\<open>serial\<close>; with it, \<^verbatim>\<open>navigator.serial.getPorts()\<close> settles
  with an error or with the ports.
\<close>

datatype 'port navigator =
    Undeclared
  | Falsy
  | Navigator "(js_error + 'port list) option"

definition listDevices :: "'port navigator \<Rightarrow> js_error + 'port list" where
  "listDevices nav =
     (case nav of
        Undeclared \<Rightarrow> Inl (ReferenceError ''navigator is not defined'')
      | Falsy \<Rightarrow> Inr []
      | Navigator None \<Rightarrow> Inr []
      | Navigator (Some ports) \<Rightarrow> ports)"

subsection \<open>Reading a trace, reading a hexadecimal numeral\<close>


text \<open>The value of a hexadecimal numeral in lower case, most significant digit first.\<close>

definition digit_value :: "char \<Rightarrow> nat" where
  "digit_value c = (if of_char c < (97::nat) then of_char c - 48 else of_char c - 87)"

definition hex_value :: "string \<Rightarrow> nat" where
  "hex_value ds = foldl (\<lambda>a c. 16 * a + digit_value c) 0 ds"

subsection \<open>What the adapter relies on in the platform\<close>

text \<open>
  The part of the Web Serial API's contract that the connection state rests on: a port
  whose \<^verbatim>\<open>open()\<close> resolved has a readable and a writable stream, a port whose
  \<^verbatim>\<open>close()\<close> resolved has neither, and starting a pipe or a timer does not change, by
  the time it returns, which streams the port has.
\<close>

definition web_serial_contract :: "'p platform \<Rightarrow> bool" where
  "web_serial_contract plat \<longleftrightarrow>
     (\<forall>opts p p'. port_open plat opts p = (None, p') \<longrightarrow>
        port_readable plat p' \<and> port_writable plat p') \<and>
     (\<forall>q p. port_readable plat (pipeTo plat q p) = port_readable plat p \<and>
        port_writable plat (pipeTo plat q p) = port_writable plat p) \<and>
     (\<forall>h ms p. port_readable plat (snd (setInterval plat h ms p)) = port_readable plat p \<and>
        port_writable plat (snd (setInterval plat h ms p)) = port_writable plat p) \<and>
     (\<forall>p p'. port_close plat p = (None, p') \<longrightarrow>
        \<not> port_readable plat p' \<and> \<not> port_writable plat p')"


subsection \<open>A simulated port\<close>

text \<open>
  A small platform to run the adapter on: a port that is open or closed, a queue of what
  the reader will deliver, the texts written so far, a counter for timer handles and the
  active timers with their functions.
  Opening an open port and closing a closed one are rejected; everything else succeeds.
\<close>

datatype incoming = Chunk string | ReadFails js_error | EndOfStream

record sim =
  sim_opened :: bool
  sim_product :: "nat option"
  sim_incoming :: "incoming list"
  sim_outgoing :: "string list"
  sim_timers :: nat
  sim_intervals :: "(timer \<times> handler) list"
  sim_forgotten :: bool

definition sim_open :: "js_object \<Rightarrow> sim \<Rightarrow> js_error option \<times> sim" where
  "sim_open opts p =
     (if sim_opened p then (Some (DOMException ''InvalidStateError''), p)
      else (None, p\<lparr>sim_opened := True\<rparr>))"

definition sim_close :: "sim \<Rightarrow> js_error option \<times> sim" where
  "sim_close p =
     (if sim_opened p then (None, p\<lparr>sim_opened := False\<rparr>)
      else (Some (DOMException ''InvalidStateError''), p))"

definition sim_read :: "sim \<Rightarrow> (js_error + read_result) \<times> sim" where
  "sim_read p =
     (case sim_incoming p of
        [] \<Rightarrow> (Inr (ReadResult None True), p)
      | Chunk c # rest \<Rightarrow> (Inr (ReadResult (Some c) False), p\<lparr>sim_incoming := rest\<rparr>)
      | ReadFails e # rest \<Rightarrow> (Inl e, p\<lparr>sim_incoming := rest\<rparr>)
      | EndOfStream # rest \<Rightarrow> (Inr (ReadResult None True), p\<lparr>sim_incoming := rest\<rparr>))"

definition sim_platform :: "sim platform" where
  "sim_platform =
     \<lparr> port_readable = sim_opened,
       port_writable = sim_opened,
       usbProductId = sim_product,
       serialPort_global = SerialPort_prototype True,
       port_has_forget = (\<lambda>p. True),
       port_open = sim_open,
       pipeTo = (\<lambda>q p. p),
       setInterval = (\<lambda>h ms p. (sim_timers p,
         p\<lparr>sim_timers := Suc (sim_timers p),
           sim_intervals := (sim_timers p, h) # sim_intervals p\<rparr>)),
       interval_handler = (\<lambda>p. map_of (sim_intervals p)),
       clearInterval = (\<lambda>t p. p\<lparr>sim_intervals := filter (\<lambda>i. fst i \<noteq> t) (sim_intervals p)\<rparr>),
       reader_read = sim_read,
       invoke = (\<lambda>f d p. (None, p)),
       reader_releaseLock = (\<lambda>p. (None, p)),
       reader_cancel = (\<lambda>p. (None, p\<lparr>sim_incoming := []\<rparr>)),
       await_pipe = (\<lambda>q p. (None, p)),
       writer_close = (\<lambda>p. (None, p)),
       port_close = sim_close,
       port_forget = (\<lambda>p. p\<lparr>sim_forgotten := True\<rparr>),
       writer_write = (\<lambda>d p. (None, p\<lparr>sim_outgoing := sim_outgoing p @ [d]\<rparr>)) \<rparr>"

definition closed_port :: sim where
  "closed_port =
     \<lparr> sim_opened = False, sim_product = Some 255, sim_incoming = [],
       sim_outgoing = [], sim_timers = 0, sim_intervals = [], sim_forgotten = False \<rparr>"

text \<open>Adapters over the simulated port: just constructed, and after one \<open>connect\<close>.\<close>

definition fresh_adapter :: "sim state" where
  "fresh_adapter = constructor closed_port None"

definition connected_adapter :: "sim state" where
  "connected_adapter = snd (connect sim_platform fresh_adapter)"

text \<open>
  An adapter over a port whose reader will deliver the given queue: just constructed,
  after \<open>connect\<close>, and after callback 7 has then been registered.
\<close>

definition adapter_receiving :: "incoming list \<Rightarrow> sim state" where
  "adapter_receiving inc = constructor (closed_port\<lparr>sim_incoming := inc\<rparr>) None"



section \<open>Properties\<close>

subsection \<open>Objects and hexadecimal numerals\<close>

lemma map_of_set_prop: "map_of (set_prop k v ps) = (map_of ps)(k \<mapsto> v)"
  by (induction ps) (auto simp: fun_eq_iff)

lemma map_of_fold_set_prop:
  "map_of (fold (\<lambda>(k, v). set_prop k v) src tgt) = map_of tgt ++ map_of (rev src)"
proof (induction src arbitrary: tgt)
  case Nil
  show ?case by simp
next
  case (Cons x xs)
  obtain k v where x: "x = (k, v)" by (cases x)
  show ?case
    by (simp add: x Cons.IH map_of_set_prop fun_eq_iff map_add_def split: option.splits)
qed

lemma map_of_rev_distinct: "distinct (map fst ps) \<Longrightarrow> map_of (rev ps) = map_of ps"
  by (simp add: distinct_map map_of_inject_set)

lemma get_prop_Object_assign:
  "distinct (map fst source) \<Longrightarrow>
   get_prop (Object_assign target source) k =
     (case get_prop source k of Some v \<Rightarrow> Some v | None \<Rightarrow> get_prop target k)"
  by (simp add: get_prop_def Object_assign_def map_of_fold_set_prop map_of_rev_distinct
      map_add_def split: option.splits)

lemma hex_digit_value_all: "\<forall>d\<in>{0..<16}. digit_value (hex_digit d) = d"
  by code_simp

lemma hex_value_snoc: "hex_value (ds @ [c]) = 16 * hex_value ds + digit_value c"
  by (simp add: hex_value_def)

lemma hex_value_toString16: "hex_value (toString16 n) = n"
proof (induction n rule: toString16.induct)
  case (1 n)
  show ?case
  proof (cases "n < 16")
    case True
    then show ?thesis using hex_digit_value_all
      by (simp add: toString16.simps[of n] hex_value_def)
  next
    case False
    have "n mod 16 < 16" by simp
    then have "digit_value (hex_digit (n mod 16)) = n mod 16"
      using hex_digit_value_all by (metis atLeastLessThan_iff le0)
    with False 1 show ?thesis
      by (simp add: toString16.simps[of n] hex_value_snoc)
  qed
qed

lemma toString16_nonempty: "toString16 n \<noteq> []"
  by (subst toString16.simps) simp

lemma hex_digit_in_alphabet: "d < 16 \<Longrightarrow> hex_digit d \<in> set ''0123456789abcdef''"
  unfolding hex_digit_def by (rule nth_mem) simp

lemma toString16_alphabet: "set (toString16 n) \<subseteq> set ''0123456789abcdef''"
proof (induction n rule: toString16.induct)
  case (1 n)
  show ?case
  proof (cases "n < 16")
    case True
    then show ?thesis
      using hex_digit_in_alphabet[of n] by (subst toString16.simps) simp
  next
    case False
    have "hex_digit (n mod 16) \<in> set ''0123456789abcdef''"
      by (rule hex_digit_in_alphabet) simp
    with False 1 show ?thesis
      by (subst toString16.simps) simp
  qed
qed

subsection \<open>What a successful connect and disconnect have done\<close>

lemma connect_success:
  assumes "\<not> isConnected plat s" and "connect plat s = (None, s')"
  shows "\<exists>p. port_open plat (serialPortOptions s) (world s) = (None, p) \<and>
           s' = s\<lparr>writableStreamClosed := Some EncoderToPort,
                  readableStreamClosed := Some PortToDecoder,
                  readInterval := Some (fst (setInterval plat ReadData 10 (pipeTo plat PortToDecoder (pipeTo plat EncoderToPort p)))),
                  world := snd (setInterval plat ReadData 10 (pipeTo plat PortToDecoder (pipeTo plat EncoderToPort p))),
                  trace := trace s @ [SerialPort_open (serialPortOptions s), PipeTo EncoderToPort,
                                      PipeTo PortToDecoder, SetInterval 10]\<rparr>"
  using assms
  by (auto simp: connect_def perform_def pipe_writable_def pipe_readable_def start_read_loop_def
      split: prod.splits option.splits if_splits)

lemma disconnect_success:
  assumes "isConnected plat s" and "disconnect plat s = (None, s')"
  shows "\<exists>p. port_close plat p = (None, world s')"
  using assms
  by (auto simp: disconnect_def perform_def clear_read_interval_def await_field_def
      split: prod.splits option.splits if_splits)

lemma connect_establishes:
  assumes c: "web_serial_contract plat" and ok: "connect plat s = (None, s')"
  shows "isConnected plat s'"
proof (cases "isConnected plat s")
  case True
  with ok show ?thesis by (simp add: connect_def)
next
  case False
  from connect_success[OF False ok] obtain p where
    op: "port_open plat (serialPortOptions s) (world s) = (None, p)" and
    w: "world s' = snd (setInterval plat ReadData 10 (pipeTo plat PortToDecoder (pipeTo plat EncoderToPort p)))"
    by auto
  from c op have "port_readable plat p \<and> port_writable plat p"
    unfolding web_serial_contract_def by blast
  with c show ?thesis
    unfolding isConnected_def w web_serial_contract_def by simp
qed

lemma disconnect_releases:
  assumes c: "web_serial_contract plat" and ok: "disconnect plat s = (None, s')"
  shows "\<not> isConnected plat s'"
proof (cases "isConnected plat s")
  case False
  with ok show ?thesis by (simp add: disconnect_def)
next
  case True
  from disconnect_success[OF True ok] obtain p where "port_close plat p = (None, world s')"
    by auto
  with c show ?thesis
    unfolding isConnected_def web_serial_contract_def by blast
qed

subsection \<open>The simulated port at work\<close>

lemma sim_contract: "web_serial_contract sim_platform"
  by (auto simp: web_serial_contract_def sim_platform_def sim_open_def sim_close_def
      split: if_splits)


lemma connect_fresh:
  "connect sim_platform fresh_adapter =
     (None, fresh_adapter\<lparr>writableStreamClosed := Some EncoderToPort,
                          readableStreamClosed := Some PortToDecoder,
                          readInterval := Some 0,
                          world := closed_port\<lparr>sim_opened := True, sim_timers := 1,
                                    sim_intervals := [(0, ReadData)]\<rparr>,
                          trace := [SerialPort_open default_options, PipeTo EncoderToPort,
                                    PipeTo PortToDecoder, SetInterval 10]\<rparr>)"
  by (simp add: connect_def isConnected_def fresh_adapter_def constructor_def closed_port_def
      sim_platform_def sim_open_def perform_def pipe_writable_def pipe_readable_def
      start_read_loop_def Object_assign_def)

lemma connected_adapter_eq:
  "connected_adapter =
     fresh_adapter\<lparr>writableStreamClosed := Some EncoderToPort,
                   readableStreamClosed := Some PortToDecoder,
                   readInterval := Some 0,
                   world := closed_port\<lparr>sim_opened := True, sim_timers := 1,
                             sim_intervals := [(0, ReadData)]\<rparr>,
                   trace := [SerialPort_open default_options, PipeTo EncoderToPort,
                             PipeTo PortToDecoder, SetInterval 10]\<rparr>"
  by (simp add: connected_adapter_def connect_fresh)

lemma fresh_not_connected: "\<not> isConnected sim_platform fresh_adapter"
  by (simp add: isConnected_def fresh_adapter_def constructor_def closed_port_def
      sim_platform_def)

lemma disconnect_connected:
  "disconnect sim_platform connected_adapter =
     (None, fresh_adapter\<lparr>world := closed_port\<lparr>sim_timers := 1\<rparr>,
                          trace := [SerialPort_open default_options, PipeTo EncoderToPort,
                                    PipeTo PortToDecoder, SetInterval 10, ClearInterval 0,
                                    Reader_cancel, Await PortToDecoder, Writer_close,
                                    Await EncoderToPort, SerialPort_close]\<rparr>)"
  unfolding connected_adapter_eq
  by (simp add: disconnect_def isConnected_def fresh_adapter_def constructor_def
      closed_port_def sim_platform_def sim_close_def perform_def clear_read_interval_def
      await_field_def)



lemma trace_adapter_receiving: "trace (adapter_receiving inc) = []"
  by (simp add: adapter_receiving_def constructor_def)


subsection \<open>The connection state\<close>

text \<open>
  Claim C1. \<open>isConnected\<close> is true exactly when the port's readable and writable
  channels are both non-null. On a platform that keeps the Web Serial contract, it is
  therefore true in the state a \<open>connect\<close> that resolved leaves, and false in the state a
  \<open>disconnect\<close> that resolved leaves.
\<close>

theorem isConnected_iff_channels:
  "(isConnected plat s \<longleftrightarrow> port_readable plat (world s) \<and> port_writable plat (world s)) \<and>
   (web_serial_contract plat \<longrightarrow> connect plat s = (None, s1) \<longrightarrow> isConnected plat s1) \<and>
   (web_serial_contract plat \<longrightarrow> disconnect plat s = (None, s2) \<longrightarrow> \<not> isConnected plat s2)"
  using connect_establishes[of plat s s1] disconnect_releases[of plat s s2]
  by (simp add: isConnected_def)

text \<open>
  On the simulated port: a fresh adapter is not connected, \<open>connect\<close> resolves and leaves
  it connected, \<open>disconnect\<close> resolves and leaves it disconnected.
\<close>

theorem isConnected_iff_channels_witness:
  "web_serial_contract sim_platform \<and>
   \<not> isConnected sim_platform fresh_adapter \<and>
   connect sim_platform fresh_adapter = (None, connected_adapter) \<and>
   isConnected sim_platform connected_adapter \<and>
   fst (disconnect sim_platform connected_adapter) = None \<and>
   \<not> isConnected sim_platform (snd (disconnect sim_platform connected_adapter))"
proof -
  have c: "connect sim_platform fresh_adapter = (None, connected_adapter)"
    by (simp add: connected_adapter_def connect_fresh)
  have d: "disconnect sim_platform connected_adapter =
      (None, snd (disconnect sim_platform connected_adapter))"
    by (simp add: disconnect_connected)
  from isConnected_iff_channels[of sim_platform fresh_adapter connected_adapter]
    isConnected_iff_channels[of sim_platform connected_adapter _
      "snd (disconnect sim_platform connected_adapter)"]
    sim_contract c d fresh_not_connected
  show ?thesis by (simp add: disconnect_connected)
qed

subsection \<open>The effective configuration\<close>

text \<open>
  Claim C2. For every options object handed to the constructor (an object has each key
  once), the stored configuration holds, key by key, the caller's value where the caller
  gave one and the default otherwise; with only \<^verbatim>\<open>{baudRate: 115200}\<close> it is
  \<^verbatim>\<open>{baudRate: 115200, dataBits: 8, stopBits: 1, parity: 'none'}\<close>, and with no options
  it is the defaults.
\<close>

theorem constructor_merges_options:
  assumes "distinct (map fst opts)"
  shows "get_prop (serialPortOptions (constructor port (Some opts))) k =
           (case get_prop opts k of
              Some v \<Rightarrow> Some v
            | None \<Rightarrow>
                get_prop [(''baudRate'', Num 9600), (''dataBits'', Num 8),
                          (''stopBits'', Num 1), (''parity'', Str ''none'')] k) \<and>
         serialPortOptions (constructor port (Some [(''baudRate'', Num 115200)])) =
           [(''baudRate'', Num 115200), (''dataBits'', Num 8), (''stopBits'', Num 1),
            (''parity'', Str ''none'')] \<and>
         serialPortOptions (constructor port None) =
           [(''baudRate'', Num 9600), (''dataBits'', Num 8), (''stopBits'', Num 1),
            (''parity'', Str ''none'')]"
proof -
  note merged = get_prop_Object_assign[OF assms, of default_options k,
      unfolded default_options_def]
  have "serialPortOptions (constructor port (Some opts)) =
      Object_assign [(''baudRate'', Num 9600), (''dataBits'', Num 8),
                     (''stopBits'', Num 1), (''parity'', Str ''none'')] opts"
    by (simp add: constructor_def default_options_def)
  with merged show ?thesis
    by (simp add: constructor_def Object_assign_def default_options_def)
qed

text \<open>
  Data bits and parity supplied: the supplied data bits win, the baud rate and the stop
  bits stay at their defaults 9600 and 1.
\<close>

theorem constructor_merges_options_witness:
  "distinct (map fst [(''dataBits'', Num 7), (''parity'', Str ''even'')]) \<and>
   get_prop (serialPortOptions (constructor closed_port
       (Some [(''dataBits'', Num 7), (''parity'', Str ''even'')]))) ''dataBits''
     = Some (Num 7) \<and>
   get_prop (serialPortOptions (constructor closed_port
       (Some [(''dataBits'', Num 7), (''parity'', Str ''even'')]))) ''baudRate''
     = Some (Num 9600) \<and>
   get_prop (serialPortOptions (constructor closed_port
       (Some [(''dataBits'', Num 7), (''parity'', Str ''even'')]))) ''stopBits''
     = Some (Num 1)"
proof -
  have h: "distinct (map fst [(''dataBits'', Num 7), (''parity'', Str ''even'')])"
    by simp
  show ?thesis
    using h constructor_merges_options[OF h, of closed_port "''dataBits''"]
      constructor_merges_options[OF h, of closed_port "''baudRate''"]
      constructor_merges_options[OF h, of closed_port "''stopBits''"]
    by (simp add: get_prop_def)
qed

subsection \<open>connect on a connected adapter, disconnect on a disconnected one\<close>

text \<open>
  Claim C3. \<open>connect\<close> on a connected adapter resolves and leaves the state as it was,
  trace included: no open, no pipe, no timer. So, on a platform that keeps the Web Serial
  contract, the second of two \<open>connect\<close> calls in a row changes nothing, and after both the
  trace holds the open sequence once.
\<close>

theorem connect_when_connected_is_noop:
  "(isConnected plat s \<longrightarrow> connect plat s = (None, s)) \<and>
   (web_serial_contract plat \<longrightarrow> connect plat s = (None, s1) \<longrightarrow>
      connect plat s1 = (None, s1)) \<and>
   (web_serial_contract plat \<longrightarrow> \<not> isConnected plat s \<longrightarrow> connect plat s = (None, s1) \<longrightarrow>
      trace (snd (connect plat s1)) =
        trace s @ [SerialPort_open (serialPortOptions s), PipeTo EncoderToPort,
                   PipeTo PortToDecoder, SetInterval 10])"
proof -
  have noop: "connect plat t = (None, t)" if "isConnected plat t" for t
    using that by (simp add: connect_def)
  have again: "connect plat s1 = (None, s1)"
    if "web_serial_contract plat" and "connect plat s = (None, s1)"
    using noop[OF connect_establishes[OF that]] .
  have once: "trace (snd (connect plat s1)) =
        trace s @ [SerialPort_open (serialPortOptions s), PipeTo EncoderToPort,
                   PipeTo PortToDecoder, SetInterval 10]"
    if c: "web_serial_contract plat" and n: "\<not> isConnected plat s"
      and ok: "connect plat s = (None, s1)"
  proof -
    from connect_success[OF n ok] have "trace s1 =
        trace s @ [SerialPort_open (serialPortOptions s), PipeTo EncoderToPort,
                   PipeTo PortToDecoder, SetInterval 10]"
      by auto
    with again[OF c ok] show ?thesis by simp
  qed
  from noop again once show ?thesis by blast
qed

text \<open>On the simulated port, two \<open>connect\<close> calls on a fresh adapter open the port once.\<close>

theorem connect_when_connected_is_noop_witness:
  "web_serial_contract sim_platform \<and>
   \<not> isConnected sim_platform fresh_adapter \<and>
   connect sim_platform fresh_adapter = (None, connected_adapter) \<and>
   isConnected sim_platform connected_adapter \<and>
   connect sim_platform connected_adapter = (None, connected_adapter) \<and>
   trace (snd (connect sim_platform connected_adapter)) =
     [SerialPort_open default_options, PipeTo EncoderToPort, PipeTo PortToDecoder,
      SetInterval 10]"
proof -
  have c: "connect sim_platform fresh_adapter = (None, connected_adapter)"
    by (simp add: connected_adapter_def connect_fresh)
  have f: "\<not> isConnected sim_platform fresh_adapter"
    by (simp add: isConnected_def fresh_adapter_def constructor_def closed_port_def
        sim_platform_def)
  have i: "isConnected sim_platform connected_adapter"
    unfolding connected_adapter_eq
    by (simp add: isConnected_def sim_platform_def)
  have t: "trace fresh_adapter = []" "serialPortOptions fresh_adapter = default_options"
    by (simp_all add: fresh_adapter_def constructor_def Object_assign_def)
  from connect_when_connected_is_noop[of sim_platform fresh_adapter connected_adapter]
    connect_when_connected_is_noop[of sim_platform connected_adapter]
    sim_contract c f i t
  show ?thesis by simp
qed

text \<open>
  Claim C4. \<open>disconnect\<close> on an adapter that is not connected resolves and leaves the
  state as it was, trace and platform included; so does \<open>disconnect\<close> on an adapter just
  constructed over a port that lacks a readable or a writable channel, before any
  \<open>connect\<close>.
\<close>

theorem disconnect_when_not_connected_is_noop:
  "(\<not> isConnected plat s \<longrightarrow> disconnect plat s = (None, s)) \<and>
   (\<not> (port_readable plat port \<and> port_writable plat port) \<longrightarrow>
      disconnect plat (constructor port opts) = (None, constructor port opts))"
  by (simp add: disconnect_def isConnected_def constructor_def)

text \<open>On the simulated port, \<open>disconnect\<close> before any \<open>connect\<close> changes nothing.\<close>

theorem disconnect_when_not_connected_is_noop_witness:
  "\<not> isConnected sim_platform fresh_adapter \<and>
   disconnect sim_platform fresh_adapter = (None, fresh_adapter) \<and>
   \<not> (port_readable sim_platform closed_port \<and> port_writable sim_platform closed_port) \<and>
   disconnect sim_platform (constructor closed_port None) = (None, constructor closed_port None)"
proof -
  have f: "\<not> isConnected sim_platform fresh_adapter"
    by (simp add: isConnected_def fresh_adapter_def constructor_def closed_port_def
        sim_platform_def)
  have p: "\<not> (port_readable sim_platform closed_port \<and> port_writable sim_platform closed_port)"
    by (simp add: closed_port_def sim_platform_def)
  from disconnect_when_not_connected_is_noop[of sim_platform fresh_adapter closed_port None] f p
  show ?thesis by simp
qed

subsection \<open>The read loop and the receive callback\<close>








subsection \<open>revokeConnection\<close>

text \<open>
  Where the global \<^verbatim>\<open>SerialPort\<close> is a class and the port has \<^verbatim>\<open>forget\<close> exactly when
  the class's prototype has it, \<open>revokeConnection\<close> rejects with \<open>unsupported\<close> when
  \<^verbatim>\<open>forget\<close> is missing, making no call, and otherwise resolves after one call of
  \<^verbatim>\<open>forget()\<close>. On a port without \<^verbatim>\<open>forget\<close> under a class that has it, it rejects with a
  TypeError.
\<close>

lemma revokeConnection_on_instance:
  assumes "serialPort_global plat = SerialPort_prototype b"
    and "port_has_forget plat (world s) = b"
  shows "(fst (revokeConnection plat s) = Some unsupported \<longleftrightarrow> \<not> b) \<and>
         (fst (revokeConnection plat s) = None \<longleftrightarrow> b) \<and>
         trace (snd (revokeConnection plat s)) =
           trace s @ (if b then [SerialPort_forget] else [])"
  using assms by (simp add: revokeConnection_def)

lemma revokeConnection_port_without_forget:
  assumes "serialPort_global plat = SerialPort_prototype True"
    and "\<not> port_has_forget plat (world s)"
  shows "revokeConnection plat s =
           (Some (TypeError ''this.serialPort.forget is not a function''), s)"
  using assms by (simp add: revokeConnection_def)

text \<open>
  Claim C6. Where the global \<^verbatim>\<open>SerialPort\<close> is not declared, the test
  \<^verbatim>\<open>'forget' in SerialPort.prototype\<close> itself throws: \<open>revokeConnection\<close> rejects with a
  ReferenceError and calls nothing, on a port that has \<^verbatim>\<open>forget\<close> (where the claim has
  it call \<^verbatim>\<open>forget()\<close> once) as on a port that lacks it (where the claim has it raise
  the unsupported-operation error).
\<close>

theorem revokeConnection_without_global_SerialPort:
  "port_has_forget (sim_platform\<lparr>serialPort_global := SerialPort_undeclared\<rparr>)
     (world fresh_adapter) \<and>
   revokeConnection (sim_platform\<lparr>serialPort_global := SerialPort_undeclared\<rparr>)
     fresh_adapter = (Some (ReferenceError ''SerialPort is not defined''), fresh_adapter) \<and>
   revokeConnection (sim_platform\<lparr>serialPort_global := SerialPort_undeclared,
       port_has_forget := (\<lambda>p. False)\<rparr>)
     fresh_adapter = (Some (ReferenceError ''SerialPort is not defined''), fresh_adapter) \<and>
   ReferenceError ''SerialPort is not defined'' \<noteq> unsupported"
  by (simp add: revokeConnection_def sim_platform_def unsupported_def)

subsection \<open>listDevices\<close>

text \<open>
  With \<^verbatim>\<open>navigator\<close> declared, \<open>listDevices\<close> gives the empty list when it is falsy or has
  no \<^verbatim>\<open>serial\<close>, and what \<^verbatim>\<open>getPorts()\<close> settles with otherwise.
\<close>

lemma listDevices_declared:
  "listDevices Falsy = Inr [] \<and> listDevices (Navigator None) = Inr [] \<and>
   listDevices (Navigator (Some r)) = r"
  by (simp add: listDevices_def)

text \<open>
  Claim C7. Where the environment has no global \<^verbatim>\<open>navigator\<close> at all, the serial
  capability is absent, and the guard \<^verbatim>\<open>!navigator\<close> itself throws: \<open>listDevices\<close> rejects
  with a ReferenceError instead of resolving with the empty list.
\<close>

theorem listDevices_undeclared_navigator:
  "listDevices Undeclared = Inl (ReferenceError ''navigator is not defined'')"
  by (simp add: listDevices_def)

subsection \<open>The device identifier\<close>

text \<open>
  Claim C8, as stated, fails: for the product id 255 the identifier is
  \<^verbatim>\<open>webserial-ff\<close>, not the hexadecimal numeral \<^verbatim>\<open>ff\<close> itself.
\<close>

theorem deviceIndentifier_counterexample:
  "usbProductId sim_platform (world fresh_adapter) = Some 255 \<and>
   toString16 255 = ''ff'' \<and>
   deviceIndentifier sim_platform fresh_adapter = ''webserial-ff'' \<and>
   deviceIndentifier sim_platform fresh_adapter \<noteq> toString16 255"
proof -
  have h: "toString16 255 = ''ff''" by code_simp
  show ?thesis
    by (simp add: h deviceIndentifier_def fresh_adapter_def constructor_def closed_port_def
        sim_platform_def)
qed

text \<open>
  Claim C8, amended. The identifier is \<^verbatim>\<open>webserial-\<close> followed by the product id in
  hexadecimal, or by \<^verbatim>\<open>unknown\<close> when the port reports no product id. The hexadecimal
  text is a numeral of the id: its value is the id, and its digits are lower case.
\<close>

theorem deviceIndentifier_prefixed:
  "deviceIndentifier plat s =
     ''webserial-'' @
       (case usbProductId plat (world s) of None \<Rightarrow> ''unknown'' | Some n \<Rightarrow> toString16 n) \<and>
   hex_value (toString16 n) = n \<and>
   set (toString16 n) \<subseteq> set ''0123456789abcdef''"
  by (simp add: deviceIndentifier_def toString16_nonempty hex_value_toString16
      toString16_alphabet del: set_simps split: option.splits)

text \<open>The simulated port reports the product id 255.\<close>

theorem deviceIndentifier_prefixed_witness:
  "deviceIndentifier sim_platform fresh_adapter = ''webserial-ff'' \<and> hex_value ''ff'' = 255"
proof -
  have h: "toString16 255 = ''ff''" by code_simp
  from deviceIndentifier_prefixed[of sim_platform fresh_adapter 255] show ?thesis
    by (simp add: h fresh_adapter_def constructor_def closed_port_def sim_platform_def)
qed

subsection \<open>Errors in the read loop\<close>

text \<open>
  Claim C9. An iteration of the read loop never throws. When its read rejects, the
  iteration ends there: the read is the only call it has made, so the registered callback
  is not invoked and nothing is logged, and no field of the adapter has changed.
\<close>

theorem readData_swallows_errors:
  "fst (readData plat s) = None \<and>
   (reader_read plat (world s) = (Inl e, p) \<longrightarrow>
      readData plat s = (None, s\<lparr>world := p, trace := trace s @ [Reader_read]\<rparr>))"
  by (simp add: readData_def try_catch_ignore_def readData_body_def split: prod.splits)

text \<open>
  On the simulated port, with callback 7 registered and a read that fails: the iteration
  resolves, and its trace is the read alone.
\<close>

theorem readData_swallows_errors_witness:
  "reader_read sim_platform
     (world (snd (setOnResiveFunc 7 (adapter_receiving [ReadFails (DOMException ''NetworkError'')]))))
     = (Inl (DOMException ''NetworkError''), closed_port) \<and>
   fst (readData sim_platform
     (snd (setOnResiveFunc 7 (adapter_receiving [ReadFails (DOMException ''NetworkError'')])))) = None \<and>
   trace (snd (readData sim_platform
     (snd (setOnResiveFunc 7 (adapter_receiving [ReadFails (DOMException ''NetworkError'')])))))
     = [Reader_read]"
proof -
  let ?s = "snd (setOnResiveFunc 7 (adapter_receiving [ReadFails (DOMException ''NetworkError'')]))"
  have r: "reader_read sim_platform (world ?s) = (Inl (DOMException ''NetworkError''), closed_port)"
    by (simp add: setOnResiveFunc_def sim_platform_def sim_read_def adapter_receiving_def
        constructor_def closed_port_def)
  have t: "trace ?s = []"
    by (simp add: setOnResiveFunc_def trace_adapter_receiving)
  from readData_swallows_errors[of sim_platform ?s "DOMException ''NetworkError''" closed_port] r t
  show ?thesis by simp
qed

subsection \<open>write\<close>

text \<open>
  Claim C10. \<open>write\<close> hands the text to the writer whatever the connection state: its
  outcome is the writer's own, its only call is that one write, and replacing the port's
  channel getters by any others changes nothing in what it does.
\<close>

theorem write_ignores_connection_state:
  "write_data plat d s =
     (fst (writer_write plat d (world s)),
      s\<lparr>world := snd (writer_write plat d (world s)), trace := trace s @ [Writer_write d]\<rparr>) \<and>
   write_data (plat\<lparr>port_readable := r, port_writable := w\<rparr>) d s = write_data plat d s"
  by (simp add: write_data_def perform_def split: prod.splits)

text \<open>On the simulated port, a write on an adapter that was never connected is accepted.\<close>

theorem write_ignores_connection_state_witness:
  "\<not> isConnected sim_platform fresh_adapter \<and>
   fst (write_data sim_platform ''AT'' fresh_adapter) = None \<and>
   trace (snd (write_data sim_platform ''AT'' fresh_adapter)) = [Writer_write ''AT''] \<and>
   sim_outgoing (world (snd (write_data sim_platform ''AT'' fresh_adapter))) = [''AT'']"
  using write_ignores_connection_state[of sim_platform "''AT''" fresh_adapter] fresh_not_connected
  by (simp add: sim_platform_def fresh_adapter_def constructor_def closed_port_def)

end
